theory Spec2Isabelle
  imports Complex_Main
begin

section \<open>Numeric model\<close>

text \<open>
  The repository computes with numpy arrays of float64 and complex128. Here a finite
  float64 is an exact \<open>real\<close> and a complex128 an exact \<open>complex\<close>: rounding is not
  modelled. The IEEE values that are not numbers are modelled explicitly. The result
  of the coherence metric and the argument of the clipping helper are values of
  \<open>float64\<close>, which has the two infinities and NaN beside the finite numbers; a result
  whose exact value exceeds \<open>FLOAT_MAX\<close>, the largest finite float64, has overflowed.
  In the score and in the bridge, where numpy yields NaN for a mean of no elements, a
  scalar function returns \<open>None\<close>. An exception raised by Python or numpy is a value of
  \<open>np_failure\<close>.

  An array is the list of its entries in row-major order, that is, a one-dimensional
  array. The reductions the code applies to its array arguments (\<open>reshape(-1)\<close>,
  \<open>np.vdot\<close>, \<open>np.mean\<close>, \<open>np.std\<close>, \<open>np.outer\<close>) depend on the entries only; where
  two arrays meet in an elementwise operation the model follows numpy's broadcasting of
  one-dimensional arrays. The matrices that the code builds itself (an outer product)
  are lists of rows.
\<close>

definition EPSILON :: real where
  "EPSILON = 1 / 10 ^ 12"

definition MAX_COHERENCE :: real where
  "MAX_COHERENCE = 1 - EPSILON"

datatype float64 = Finite real | PosInf | NegInf | NaN

definition FLOAT_MAX :: real where
  "FLOAT_MAX = 2 ^ 1024 - 2 ^ 971"

section \<open>The coherence metric\<close>

text \<open>
  \<open>calculate_coherence\<close> (quantum-cognitive-bridge.py, and word for word the same body in
  quantum-implementation.py with \<open>self.dimension\<close> for \<open>self.quantum_dim\<close>):
  \<^verbatim>\<open>
  rho = np.outer(quantum_state, quantum_state.conj())
  coherence = np.sum(np.abs(rho - np.diag(np.diag(rho))))
  return float(coherence / (self.quantum_dim * (self.quantum_dim - 1)))
  \<close>
  The divisor is built from the attribute \<open>quantum_dim\<close> of the bridge object, an
  integer fixed at construction, not from the length of the vector; it is never
  negative. \<open>coherence\<close> is a numpy float64, so a zero divisor raises nothing: the
  quotient of zero by zero is NaN, of a positive number by zero the positive infinity.

  Overflow: the magnitude of the entry \<open>\<rho>\<^bsub>ij\<^esub>\<close> is \<open>|x\<^bsub>i\<^esub>| \<sqdot> |x\<^bsub>j\<^esub>|\<close>. When some
  entry exceeds \<open>FLOAT_MAX\<close> in magnitude, so does the diagonal entry of the larger of
  its two factors; that entry is an infinity, the subtraction of the diagonal leaves
  \<open>inf - inf = NaN\<close> in its place, and the sum and the quotient are NaN. When every
  entry is finite but their sum exceeds \<open>FLOAT_MAX\<close>, the sum and the quotient are the
  positive infinity.
\<close>

definition np_outer :: "complex list \<Rightarrow> complex list \<Rightarrow> complex list list" where
  "np_outer a b = map (\<lambda>x. map (\<lambda>y. x * y) b) a"

text \<open>\<open>np.diag\<close> of a square matrix is its main diagonal; of a vector, the square matrix
  with that diagonal and zeros elsewhere.\<close>

definition np_diag :: "complex list list \<Rightarrow> complex list" where
  "np_diag m = map (\<lambda>i. m ! i ! i) [0..<length m]"

definition np_diag_matrix :: "complex list \<Rightarrow> complex list list" where
  "np_diag_matrix d =
     map (\<lambda>i. map (\<lambda>j. if i = j then d ! i else 0) [0..<length d]) [0..<length d]"

text \<open>Entrywise difference of two matrices of the same shape.\<close>

definition mat_sub :: "complex list list \<Rightarrow> complex list list \<Rightarrow> complex list list" where
  "mat_sub a b = map2 (\<lambda>r s. map2 (\<lambda>x y. x - y) r s) a b"

definition np_sum_abs :: "complex list list \<Rightarrow> real" where
  "np_sum_abs m = sum_list (map (\<lambda>r. sum_list (map cmod r)) m)"

definition calculate_coherence :: "int \<Rightarrow> complex list \<Rightarrow> float64" where
  "calculate_coherence quantum_dim quantum_state =
     (let rho = np_outer quantum_state (map cnj quantum_state);
          coherence = np_sum_abs (mat_sub rho (np_diag_matrix (np_diag rho)));
          divisor = quantum_dim * (quantum_dim - 1)
      in if \<exists>row \<in> set rho. \<exists>z \<in> set row. FLOAT_MAX < cmod z then NaN
         else if FLOAT_MAX < coherence then PosInf
         else if divisor = 0 then (if coherence = 0 then NaN else PosInf)
         else Finite (coherence / real_of_int divisor))"

text \<open>
  \<open>_bound_coherence\<close> (quantum_meta/meta_cognitive/processor.py):
  \<^verbatim>\<open>return np.clip(value, 0.0, MAX_COHERENCE)\<close>
  \<open>np.clip\<close> is \<open>minimum(maximum(value, 0.0), MAX_COHERENCE)\<close>: an infinity is clipped
  to the bound on its side, and NaN stays NaN.
\<close>

fun bound_coherence :: "float64 \<Rightarrow> float64" where
  "bound_coherence (Finite v) = Finite (min (max v 0) MAX_COHERENCE)"
| "bound_coherence PosInf = Finite MAX_COHERENCE"
| "bound_coherence NegInf = Finite 0"
| "bound_coherence NaN = NaN"

text \<open>The sum the module's docstring writes, \<open>\<Sum>\<^bsub>i\<noteq>j\<^esub> |\<rho>\<^bsub>ij\<^esub>|\<close>, for comparison with
  what the code computes.\<close>

definition offdiag_sum :: "complex list \<Rightarrow> real" where
  "offdiag_sum x =
     (\<Sum>i<length x. \<Sum>j<length x. if i = j then 0 else cmod (x ! i * cnj (x ! j)))"

section \<open>Normalization\<close>

text \<open>
  \<open>np.vdot(a, b)\<close> conjugates its first argument and sums the products over all
  entries. It is only ever called with the same array twice.
\<close>

definition np_vdot :: "complex list \<Rightarrow> complex list \<Rightarrow> complex" where
  "np_vdot a b = sum_list (map2 (\<lambda>x y. cnj x * y) a b)"

text \<open>
  \<open>_normalize_quantum_state\<close> (quantum_meta/meta_cognitive/processor.py):
  \<^verbatim>\<open>
  norm = np.sqrt(np.abs(np.vdot(state, state)) + EPSILON)
  return state / norm
  \<close>
  Overflow: when the inner product exceeds \<open>FLOAT_MAX\<close> its magnitude is the positive
  infinity, so is \<open>norm\<close>, and every entry divided by it is 0.
\<close>

definition normalize_quantum_state :: "complex list \<Rightarrow> complex list" where
  "normalize_quantum_state state =
     (if FLOAT_MAX < cmod (np_vdot state state) then map (\<lambda>z. 0) state
      else (let norm = sqrt (cmod (np_vdot state state) + EPSILON)
            in map (\<lambda>z. z / complex_of_real norm) state))"

text \<open>The L2 norm of an array (\<open>np.linalg.norm\<close>), in which the specification measures
  a normalized state, and its square.\<close>

definition norm_sq :: "complex list \<Rightarrow> real" where
  "norm_sq v = sum_list (map (\<lambda>z. (cmod z)\<^sup>2) v)"

definition l2_norm :: "complex list \<Rightarrow> real" where
  "l2_norm v = sqrt (norm_sq v)"

section \<open>Statistics of arrays\<close>

text \<open>
  \<open>np.mean\<close> and \<open>np.std\<close> of an array with no entry are NaN (numpy warns and does not
  raise); \<open>np.std\<close> is the population standard deviation. A Python list of floats one
  of which is NaN has a NaN mean.
\<close>

definition np_mean :: "real list \<Rightarrow> real option" where
  "np_mean xs = (if xs = [] then None else Some (sum_list xs / real (length xs)))"

definition np_mean_complex :: "complex list \<Rightarrow> complex option" where
  "np_mean_complex xs =
     (if xs = [] then None else Some (sum_list xs / of_nat (length xs)))"

definition np_std :: "real list \<Rightarrow> real option" where
  "np_std xs =
     (case np_mean xs of
        None \<Rightarrow> None
      | Some m \<Rightarrow> Some (sqrt (sum_list (map (\<lambda>x. (x - m)\<^sup>2) xs) / real (length xs))))"

definition np_mean_floats :: "real option list \<Rightarrow> real option" where
  "np_mean_floats xs = (case those xs of None \<Rightarrow> None | Some ys \<Rightarrow> np_mean ys)"

section \<open>States, configuration and failures\<close>

text \<open>
  The two dataclasses whose attributes the methods of \<open>CoherenceOptimizer\<close> and
  \<open>QuantumNeuralBridge\<close> read (quantum_neural_bridge-core.py); the states passed to
  these methods are of them:
  \<^verbatim>\<open>
  class QuantumState:  amplitude_matrix, phase_matrix, coherence_metric, entanglement_pattern
  class NeuralState:   activation_matrix, weight_tensors, quantum_coupling, adaptation_history
  \<close>
  The amplitude is complex, the phase and the weights are real. A dictionary of named
  arrays is an association list. An entry of \<open>adaptation_history\<close> is the dictionary
  \<open>{'iteration': iteration, 'adaptations': adaptations}\<close>.
\<close>

datatype np_failure = ValueError | KeyError | TypeError

record adaptations =
  weight_updates :: "real list list"
  coupling_updates :: "(string \<times> complex list) list"

record adaptation_entry =
  iteration :: nat
  entry_adaptations :: adaptations

record QuantumState =
  amplitude_matrix :: "complex list"
  phase_matrix :: "real list"
  coherence_metric :: real
  entanglement_pattern :: "(string \<times> complex list) list"

record NeuralState =
  activation_matrix :: "real list"
  weight_tensors :: "real list list"
  quantum_coupling :: "(string \<times> complex list) list"
  adaptation_history :: "adaptation_entry list"

text \<open>The dictionary that \<open>_compute_quantum_corrections\<close> returns is read at the keys
  \<open>'amplitude'\<close> and \<open>'phase'\<close>.\<close>

record corrections =
  corr_amplitude :: "complex list"
  corr_phase :: "real list"

text \<open>
  \<open>self.config\<close> of \<open>CoherenceOptimizer\<close>. \<open>optimization_cycles\<close> is read with
  \<open>self.config['optimization_cycles']\<close>, which raises \<open>KeyError\<close> when the key is
  missing; the other three keys are read with \<open>self.config.get(key, default)\<close>.
\<close>

record optimization_params =
  learning_rate :: real
  max_iterations :: int
  convergence_threshold :: real

record weights =
  quantum :: real
  neural :: real
  cross :: real

record config =
  optimization_cycles :: "int option"
  quantum_optimization :: "optimization_params option"
  neural_optimization :: "optimization_params option"
  coherence_weights :: "weights option"

definition default_optimization_params :: optimization_params where
  "default_optimization_params =
     \<lparr>learning_rate = 1 / 100, max_iterations = 100, convergence_threshold = 1 / 10 ^ 6\<rparr>"

definition default_weights :: weights where
  "default_weights = \<lparr>quantum = 4 / 10, neural = 3 / 10, cross = 3 / 10\<rparr>"

text \<open>\<open>dict.get(key, default)\<close>.\<close>

definition get_default :: "'a option \<Rightarrow> 'a \<Rightarrow> 'a" where
  "get_default v d = (case v of None \<Rightarrow> d | Some x \<Rightarrow> x)"

text \<open>
  quantum_state_manager.py, the module of \<open>CoherenceOptimizer\<close>, declares two
  dataclasses of its own under the same names, and a constructor call inside the module
  refers to them:
  \<^verbatim>\<open>
  @dataclass
  class QuantumState:
      state_vector: np.ndarray
      coherence_metric: float

  @dataclass
  class NeuralState:
      activations: np.ndarray
      coherence_metric: float
  \<close>
  The generated constructor raises \<open>TypeError\<close> for a keyword that is not a field and
  for a field that is given no value.
\<close>

definition QuantumState_fields :: "string list" where
  "QuantumState_fields = [''state_vector'', ''coherence_metric'']"

definition NeuralState_fields :: "string list" where
  "NeuralState_fields = [''activations'', ''coherence_metric'']"

text \<open>The keywords of the two constructor calls in the module, in
  \<open>_apply_quantum_optimization\<close> and in \<open>_apply_neural_optimization\<close>.\<close>

definition QuantumState_call :: "string list" where
  "QuantumState_call =
     [''amplitude_matrix'', ''phase_matrix'', ''coherence_metric'', ''entanglement_pattern'']"

definition NeuralState_call :: "string list" where
  "NeuralState_call =
     [''activation_matrix'', ''weight_tensors'', ''quantum_coupling'', ''adaptation_history'']"

definition dataclass_new :: "string list \<Rightarrow> string list \<Rightarrow> 'a \<Rightarrow> np_failure + 'a" where
  "dataclass_new declared keywords obj =
     (if list_all (\<lambda>k. k \<in> set declared) keywords \<and>
         list_all (\<lambda>f. f \<in> set keywords) declared
      then Inr obj else Inl TypeError)"

text \<open>
  Elementwise arithmetic of two one-dimensional arrays follows numpy's broadcasting:
  equal lengths combine entry by entry, an array of length one is stretched over the
  other, and any other pair of lengths raises \<open>ValueError\<close>.
\<close>

definition np_broadcast :: "('a \<Rightarrow> 'b \<Rightarrow> 'c) \<Rightarrow> 'a list \<Rightarrow> 'b list \<Rightarrow> np_failure + 'c list" where
  "np_broadcast f a b =
     (if length a = length b then Inr (map2 f a b)
      else if length a = 1 then Inr (map (f (hd a)) b)
      else if length b = 1 then Inr (map (\<lambda>x. f x (hd b)) a)
      else Inl ValueError)"

text \<open>A list comprehension whose element expression may raise: the first failure ends
  it.\<close>

fun collect :: "(np_failure + 'a) list \<Rightarrow> np_failure + 'a list" where
  "collect [] = Inr []"
| "collect (Inl e # rs) = Inl e"
| "collect (Inr x # rs) = (case collect rs of Inl e \<Rightarrow> Inl e | Inr xs \<Rightarrow> Inr (x # xs))"

section \<open>The combined score\<close>

text \<open>
  \<open>_calculate_neural_stability\<close> (quantum_state_manager.py; \<open>_compute_neural_stability\<close>
  of quantum_neural_bridge-core.py computes the same value):
  \<^verbatim>\<open>
  weight_stats = [np.std(tensor) for tensor in state.weight_tensors]
  stability = 1.0 / (1.0 + np.mean(weight_stats))
  \<close>
\<close>

definition calculate_neural_stability :: "NeuralState \<Rightarrow> real option" where
  "calculate_neural_stability state =
     (case np_mean_floats (map np_std (weight_tensors state)) of
        None \<Rightarrow> None
      | Some m \<Rightarrow> if 1 + m = 0 then None else Some (1 / (1 + m)))"

text \<open>
  \<open>_calculate_cross_coherence\<close> (quantum_state_manager.py):
  \<^verbatim>\<open>
  quantum_signature = np.mean(quantum_state.amplitude_matrix)
  neural_signature = np.mean([np.mean(tensor) for tensor in neural_state.weight_tensors])
  coherence = 1.0 - np.abs(quantum_signature - neural_signature)
  return coherence
  \<close>
\<close>

definition calculate_cross_coherence :: "QuantumState \<Rightarrow> NeuralState \<Rightarrow> real option" where
  "calculate_cross_coherence quantum_state neural_state =
     (case np_mean_complex (amplitude_matrix quantum_state) of
        None \<Rightarrow> None
      | Some quantum_signature \<Rightarrow>
          (case np_mean_floats (map np_mean (weight_tensors neural_state)) of
             None \<Rightarrow> None
           | Some neural_signature \<Rightarrow>
               Some (1 - cmod (quantum_signature - complex_of_real neural_signature))))"

text \<open>
  \<open>_verify_coherence\<close> (quantum_state_manager.py):
  \<^verbatim>\<open>
  quantum_coherence = quantum_state.coherence_metric
  neural_stability = self._calculate_neural_stability(neural_state)
  cross_coherence = self._calculate_cross_coherence(quantum_state, neural_state)
  weights = self.config.get('coherence_weights', {'quantum': 0.4, 'neural': 0.3, 'cross': 0.3})
  return (weights['quantum'] * quantum_coherence + weights['neural'] * neural_stability
          + weights['cross'] * cross_coherence)
  \<close>
\<close>

definition verify_coherence :: "config \<Rightarrow> QuantumState \<Rightarrow> NeuralState \<Rightarrow> real option" where
  "verify_coherence cfg quantum_state neural_state =
     (let quantum_coherence = coherence_metric quantum_state;
          w = get_default (coherence_weights cfg) default_weights
      in case calculate_neural_stability neural_state of
           None \<Rightarrow> None
         | Some neural_stability \<Rightarrow>
             (case calculate_cross_coherence quantum_state neural_state of
                None \<Rightarrow> None
              | Some cross_coherence \<Rightarrow>
                  Some (quantum w * quantum_coherence + neural w * neural_stability
                        + cross w * cross_coherence)))"


section \<open>The coupling matrix\<close>

text \<open>
  \<open>np.mean(rows, axis=0)\<close> of a Python list of one-dimensional arrays: the list is first
  made an array, which raises \<open>ValueError\<close> when the rows differ in length. The mean of
  an empty list raises nothing: it is the scalar NaN, which \<open>np.outer\<close> takes as an
  array of one entry. An entry of the result is \<open>None\<close> when it is NaN.
\<close>

definition np_mean_axis0 :: "real list list \<Rightarrow> np_failure + real option list" where
  "np_mean_axis0 rows =
     (if rows = [] then Inr [None]
      else if \<exists>r \<in> set rows. length r \<noteq> length (hd rows) then Inl ValueError
      else Inr (map (\<lambda>j. Some (sum_list (map (\<lambda>r. r ! j) rows) / real (length rows)))
                  [0..<length (hd rows)]))"

text \<open>\<open>np.angle\<close> of a real number: 0 for a nonnegative one, \<open>\<pi>\<close> for a negative one.\<close>

definition np_angle :: "real \<Rightarrow> real" where
  "np_angle x = (if 0 \<le> x then 0 else pi)"

text \<open>
  \<open>_calculate_coupling_matrix\<close> (quantum_state_manager.py):
  \<^verbatim>\<open>
  quantum_signature = quantum_state.amplitude_matrix.reshape(-1)
  neural_signature = np.mean([tensor.reshape(-1) for tensor in neural_state.weight_tensors], axis=0)
  coupling_strength = np.abs(np.outer(quantum_signature, neural_signature))
  phase_matrix = np.exp(1j * np.angle(quantum_state.phase_matrix)).reshape(-1, 1)
  return coupling_strength * phase_matrix
  \<close>
  The last product broadcasts a matrix of \<open>D\<close> rows against a column of \<open>P\<close> phase
  factors: the rows are paired as \<open>np_broadcast\<close> pairs two arrays, and each row is
  scaled by its factor. A product with NaN is NaN. No line of the method compares the
  length of the field's signature with the length of the adaptive signature, and the
  class defines no exception of its own.
\<close>

definition calculate_coupling_matrix ::
  "QuantumState \<Rightarrow> NeuralState \<Rightarrow> np_failure + complex option list list" where
  "calculate_coupling_matrix quantum_state neural_state =
     (let quantum_signature = amplitude_matrix quantum_state
      in case np_mean_axis0 (weight_tensors neural_state) of
           Inl e \<Rightarrow> Inl e
         | Inr neural_signature \<Rightarrow>
             (let coupling_strength =
                    map (\<lambda>q. map (map_option (\<lambda>n. cmod (q * complex_of_real n)))
                              neural_signature)
                      quantum_signature;
                  phase = map (\<lambda>p. cis (np_angle p)) (phase_matrix quantum_state)
              in np_broadcast (\<lambda>row ph. map (map_option (\<lambda>c. complex_of_real c * ph)) row)
                   coupling_strength phase))"

section \<open>The optimizer\<close>

text \<open>
  An entry of \<open>self.optimization_history\<close>: the combined score and the signatures of the
  two states (the entry's \<open>'timestamp'\<close>, a reading of the wall clock, is left out).
\<close>

record 'sig optimization_entry =
  entry_coherence_metric :: "real option"
  entry_quantum_state :: 'sig
  entry_neural_state :: 'sig

text \<open>
  \<open>CoherenceOptimizer\<close> calls methods that no file of the repository defines. They are
  taken as parameters: each is a function of its arguments, and
  \<open>_check_optimization_convergence(cycle)\<close>, whose only other input is \<open>self\<close>, is a
  function of the history and the cycle. \<open>_state_signature\<close> is called on both kinds of
  state.
\<close>

record 'sig absent_methods =
  apply_error_correction :: "QuantumState \<Rightarrow> QuantumState"
  optimize_phase_alignment :: "QuantumState \<Rightarrow> QuantumState"
  stabilize_quantum_coherence :: "QuantumState \<Rightarrow> QuantumState"
  adapt_neural_weights :: "NeuralState \<Rightarrow> QuantumState \<Rightarrow> NeuralState"
  optimize_neural_coherence :: "NeuralState \<Rightarrow> NeuralState"
  stabilize_neural_patterns :: "NeuralState \<Rightarrow> NeuralState"
  compute_quantum_corrections :: "QuantumState \<Rightarrow> complex option list list \<Rightarrow> corrections"
  calculate_coherence_metric :: "complex list \<Rightarrow> real list \<Rightarrow> real"
  check_quantum_convergence :: "QuantumState \<Rightarrow> QuantumState \<Rightarrow> real \<Rightarrow> bool"
  compute_neural_adaptations :: "NeuralState \<Rightarrow> complex option list list \<Rightarrow> adaptations"
  update_quantum_coupling ::
    "(string \<times> complex list) list \<Rightarrow> (string \<times> complex list) list \<Rightarrow> (string \<times> complex list) list"
  check_neural_convergence :: "NeuralState \<Rightarrow> NeuralState \<Rightarrow> real \<Rightarrow> bool"
  state_signature_quantum :: "QuantumState \<Rightarrow> 'sig"
  state_signature_neural :: "NeuralState \<Rightarrow> 'sig"
  check_optimization_convergence :: "'sig optimization_entry list \<Rightarrow> nat \<Rightarrow> bool"

text \<open>
  \<open>_apply_quantum_optimization\<close>: the body of
  \<open>for iteration in range(optimization_params['max_iterations'])\<close>, with the number of
  iterations still to run as the recursion argument.
  \<^verbatim>\<open>
  corrections = await self._compute_quantum_corrections(current_state, coupling)
  new_amplitude = current_state.amplitude_matrix + (
      optimization_params['learning_rate'] * corrections['amplitude'])
  new_phase = current_state.phase_matrix + (
      optimization_params['learning_rate'] * corrections['phase'])
  new_state = QuantumState(amplitude_matrix=new_amplitude, phase_matrix=new_phase,
      coherence_metric=self._calculate_coherence_metric(new_amplitude, new_phase),
      entanglement_pattern=current_state.entanglement_pattern)
  if self._check_quantum_convergence(current_state, new_state,
                                     optimization_params['convergence_threshold']):
      break
  current_state = new_state
  \<close>
  and \<open>return current_state\<close> after the loop. \<open>QuantumState\<close> in this body is the
  dataclass of the module itself, so the call is checked against its fields.
\<close>

fun quantum_optimization_loop ::
  "'sig absent_methods \<Rightarrow> optimization_params \<Rightarrow> complex option list list \<Rightarrow> nat \<Rightarrow> QuantumState
     \<Rightarrow> np_failure + QuantumState" where
  "quantum_optimization_loop A params coupling 0 current_state = Inr current_state"
| "quantum_optimization_loop A params coupling (Suc k) current_state =
     (let corr = compute_quantum_corrections A current_state coupling
      in case np_broadcast (\<lambda>x y. x + y) (amplitude_matrix current_state)
                (map (\<lambda>c. complex_of_real (learning_rate params) * c) (corr_amplitude corr)) of
           Inl e \<Rightarrow> Inl e
         | Inr new_amplitude \<Rightarrow>
             (case np_broadcast (\<lambda>x y. x + y) (phase_matrix current_state)
                     (map (\<lambda>p. learning_rate params * p) (corr_phase corr)) of
                Inl e \<Rightarrow> Inl e
              | Inr new_phase \<Rightarrow>
                  (case dataclass_new QuantumState_fields QuantumState_call
                          \<lparr>amplitude_matrix = new_amplitude, phase_matrix = new_phase,
                           coherence_metric = calculate_coherence_metric A new_amplitude new_phase,
                           entanglement_pattern = entanglement_pattern current_state\<rparr> of
                     Inl e \<Rightarrow> Inl e
                   | Inr new_state \<Rightarrow>
                       if check_quantum_convergence A current_state new_state
                            (convergence_threshold params)
                       then Inr current_state
                       else quantum_optimization_loop A params coupling k new_state)))"

definition apply_quantum_optimization ::
  "'sig absent_methods \<Rightarrow> config \<Rightarrow> QuantumState \<Rightarrow> complex option list list
     \<Rightarrow> np_failure + QuantumState" where
  "apply_quantum_optimization A cfg state coupling =
     (let optimization_params = get_default (quantum_optimization cfg) default_optimization_params
      in quantum_optimization_loop A optimization_params coupling
           (nat (max_iterations optimization_params)) state)"

text \<open>
  \<open>_apply_neural_optimization\<close>: the loop body, with the loop variable \<open>iteration\<close> and
  the number of iterations still to run.
  \<^verbatim>\<open>
  adaptations = await self._compute_neural_adaptations(current_state, coupling)
  new_weights = [tensor + optimization_params['learning_rate'] * adaptation
                 for tensor, adaptation in zip(current_state.weight_tensors,
                                               adaptations['weight_updates'])]
  new_state = NeuralState(activation_matrix=current_state.activation_matrix,
      weight_tensors=new_weights,
      quantum_coupling=self._update_quantum_coupling(current_state.quantum_coupling,
                                                     adaptations['coupling_updates']),
      adaptation_history=current_state.adaptation_history + [
          {'iteration': iteration, 'adaptations': adaptations}])
  if self._check_neural_convergence(current_state, new_state,
                                    optimization_params['convergence_threshold']):
      break
  current_state = new_state
  \<close>
  \<open>NeuralState\<close> in this body is the dataclass of the module itself.
\<close>

fun neural_optimization_loop ::
  "'sig absent_methods \<Rightarrow> optimization_params \<Rightarrow> complex option list list \<Rightarrow> nat \<Rightarrow> nat \<Rightarrow> NeuralState
     \<Rightarrow> np_failure + NeuralState" where
  "neural_optimization_loop A params coupling i 0 current_state = Inr current_state"
| "neural_optimization_loop A params coupling i (Suc k) current_state =
     (let adapt = compute_neural_adaptations A current_state coupling
      in case collect
                (map (\<lambda>(tensor, adaptation).
                        np_broadcast (\<lambda>x y. x + y) tensor
                          (map (\<lambda>a. learning_rate params * a) adaptation))
                   (zip (weight_tensors current_state) (weight_updates adapt))) of
           Inl e \<Rightarrow> Inl e
         | Inr new_weights \<Rightarrow>
             (case dataclass_new NeuralState_fields NeuralState_call
                     \<lparr>activation_matrix = activation_matrix current_state,
                      weight_tensors = new_weights,
                      quantum_coupling =
                        update_quantum_coupling A (quantum_coupling current_state)
                          (coupling_updates adapt),
                      adaptation_history =
                        adaptation_history current_state
                          @ [\<lparr>iteration = i, entry_adaptations = adapt\<rparr>]\<rparr> of
                Inl e \<Rightarrow> Inl e
              | Inr new_state \<Rightarrow>
                  if check_neural_convergence A current_state new_state
                       (convergence_threshold params)
                  then Inr current_state
                  else neural_optimization_loop A params coupling (Suc i) k new_state))"

definition apply_neural_optimization ::
  "'sig absent_methods \<Rightarrow> config \<Rightarrow> NeuralState \<Rightarrow> complex option list list
     \<Rightarrow> np_failure + NeuralState" where
  "apply_neural_optimization A cfg state coupling =
     (let optimization_params = get_default (neural_optimization cfg) default_optimization_params
      in neural_optimization_loop A optimization_params coupling 0
           (nat (max_iterations optimization_params)) state)"

text \<open>\<open>_optimize_quantum_phase\<close> and \<open>_optimize_neural_phase\<close> chain three absent
  methods each.\<close>

definition optimize_quantum_phase :: "'sig absent_methods \<Rightarrow> QuantumState \<Rightarrow> QuantumState" where
  "optimize_quantum_phase A state =
     (let corrected_state = apply_error_correction A state;
          phase_optimized = optimize_phase_alignment A corrected_state
      in stabilize_quantum_coherence A phase_optimized)"

definition optimize_neural_phase ::
  "'sig absent_methods \<Rightarrow> NeuralState \<Rightarrow> QuantumState \<Rightarrow> NeuralState" where
  "optimize_neural_phase A neural_state quantum_state =
     (let adapted_state = adapt_neural_weights A neural_state quantum_state;
          coherent_state = optimize_neural_coherence A adapted_state
      in stabilize_neural_patterns A coherent_state)"

text \<open>
  \<open>_optimize_cross_coherence\<close>: coupling, the two optimizations, the score, and one entry
  appended to \<open>self.optimization_history\<close>, which the model passes in and returns.
\<close>

definition optimize_cross_coherence ::
  "'sig absent_methods \<Rightarrow> config \<Rightarrow> 'sig optimization_entry list \<Rightarrow> QuantumState \<Rightarrow> NeuralState
     \<Rightarrow> np_failure + (QuantumState \<times> NeuralState \<times> 'sig optimization_entry list)" where
  "optimize_cross_coherence A cfg optimization_history quantum_state neural_state =
     (case calculate_coupling_matrix quantum_state neural_state of
        Inl e \<Rightarrow> Inl e
      | Inr coupling_matrix \<Rightarrow>
          (case apply_quantum_optimization A cfg quantum_state coupling_matrix of
             Inl e \<Rightarrow> Inl e
           | Inr quantum_optimized \<Rightarrow>
               (case apply_neural_optimization A cfg neural_state coupling_matrix of
                  Inl e \<Rightarrow> Inl e
                | Inr neural_optimized \<Rightarrow>
                    Inr (quantum_optimized, neural_optimized,
                         optimization_history
                           @ [\<lparr>entry_coherence_metric =
                                  verify_coherence cfg quantum_optimized neural_optimized,
                                entry_quantum_state = state_signature_quantum A quantum_optimized,
                                entry_neural_state = state_signature_neural A neural_optimized\<rparr>]))))"

text \<open>
  \<open>optimize_coherence\<close>: the body of \<open>for cycle in range(optimization_cycles)\<close> over the
  cycles still to run, and \<open>return current_quantum_state, current_neural_state\<close>. The
  method returns the pair of states only; the model returns the history of the object
  beside it.
  \<^verbatim>\<open>
  optimized_quantum = await self._optimize_quantum_phase(current_quantum_state)
  optimized_neural = await self._optimize_neural_phase(current_neural_state, optimized_quantum)
  quantum_state, neural_state = await self._optimize_cross_coherence(
      optimized_quantum, optimized_neural)
  current_quantum_state = quantum_state
  current_neural_state = neural_state
  if self._check_optimization_convergence(cycle):
      break
  \<close>
\<close>

fun optimize_coherence_loop ::
  "'sig absent_methods \<Rightarrow> config \<Rightarrow> nat list \<Rightarrow> 'sig optimization_entry list \<Rightarrow> QuantumState
     \<Rightarrow> NeuralState \<Rightarrow> np_failure + (QuantumState \<times> NeuralState \<times> 'sig optimization_entry list)" where
  "optimize_coherence_loop A cfg [] history current_quantum_state current_neural_state =
     Inr (current_quantum_state, current_neural_state, history)"
| "optimize_coherence_loop A cfg (cycle # cycles) history current_quantum_state
       current_neural_state =
     (let optimized_quantum = optimize_quantum_phase A current_quantum_state;
          optimized_neural = optimize_neural_phase A current_neural_state optimized_quantum
      in case optimize_cross_coherence A cfg history optimized_quantum optimized_neural of
           Inl e \<Rightarrow> Inl e
         | Inr (quantum_state, neural_state, history') \<Rightarrow>
             if check_optimization_convergence A history' cycle
             then Inr (quantum_state, neural_state, history')
             else optimize_coherence_loop A cfg cycles history' quantum_state neural_state)"

definition optimize_coherence ::
  "'sig absent_methods \<Rightarrow> config \<Rightarrow> 'sig optimization_entry list \<Rightarrow> QuantumState \<Rightarrow> NeuralState
     \<Rightarrow> np_failure + (QuantumState \<times> NeuralState \<times> 'sig optimization_entry list)" where
  "optimize_coherence A cfg optimization_history quantum_state neural_state =
     (case optimization_cycles cfg of
        None \<Rightarrow> Inl KeyError
      | Some cycles \<Rightarrow>
          optimize_coherence_loop A cfg [0..<nat cycles] optimization_history
            quantum_state neural_state)"

section \<open>The coherence tracker\<close>

text \<open>
  \<open>CoherenceTracker\<close> (nexus_transformation_core.py). An entry of its history is
  \<open>{'timestamp': time.time(), 'coherence': ..., 'delta': ...}\<close>; the timestamp, which no
  method reads, is left out.
  \<^verbatim>\<open>
  def __init__(self, tracker_id, stability_threshold):
      self.tracker_id = tracker_id
      self.stability_threshold = stability_threshold
      self.coherence_history = []
      self.current_coherence = 0.0

  async def update(self, coherence_delta):
      self.current_coherence += coherence_delta
      self.coherence_history.append({'timestamp': time.time(),
          'coherence': self.current_coherence, 'delta': coherence_delta})

  def is_optimal(self):
      return (self.current_coherence >= self.stability_threshold and
              len(self.coherence_history) >= 3 and
              all(abs(h['delta']) < 0.01 for h in self.coherence_history[-3:]))
  \<close>
\<close>

record history_entry =
  coherence :: real
  delta :: real

record CoherenceTracker =
  tracker_id :: string
  stability_threshold :: real
  coherence_history :: "history_entry list"
  current_coherence :: real

definition CoherenceTracker_init :: "string \<Rightarrow> real \<Rightarrow> CoherenceTracker" where
  "CoherenceTracker_init tid threshold =
     \<lparr>tracker_id = tid, stability_threshold = threshold, coherence_history = [],
      current_coherence = 0\<rparr>"

definition update :: "CoherenceTracker \<Rightarrow> real \<Rightarrow> CoherenceTracker" where
  "update self coherence_delta =
     (let c = current_coherence self + coherence_delta
      in self\<lparr>current_coherence := c,
              coherence_history :=
                coherence_history self @ [\<lparr>coherence = c, delta = coherence_delta\<rparr>]\<rparr>)"

text \<open>The slice \<open>xs[-n:]\<close>: the last \<open>n\<close> elements, or all of a shorter list.\<close>

definition last_n :: "nat \<Rightarrow> 'a list \<Rightarrow> 'a list" where
  "last_n n xs = drop (length xs - n) xs"

definition is_optimal :: "CoherenceTracker \<Rightarrow> bool" where
  "is_optimal self =
     (current_coherence self \<ge> stability_threshold self \<and>
      length (coherence_history self) \<ge> 3 \<and>
      list_all (\<lambda>h. \<bar>delta h\<bar> < 1 / 100) (last_n 3 (coherence_history self)))"

text \<open>
  The predicate as the specification words it, with the window and the threshold as
  arguments: the history has at least \<open>window\<close> records, the score reaches the
  threshold, and each of the last \<open>window\<close> deltas is below 0.01 in absolute value.
\<close>

definition is_converged_spec :: "nat \<Rightarrow> real \<Rightarrow> CoherenceTracker \<Rightarrow> bool" where
  "is_converged_spec window threshold t =
     (length (coherence_history t) \<ge> window \<and>
      current_coherence t \<ge> threshold \<and>
      (\<forall>i<window. \<bar>delta (coherence_history t ! (length (coherence_history t) - 1 - i))\<bar>
          < 1 / 100))"

section \<open>The bridge\<close>




record cycle_metrics =
  quantum_coherence :: real
  neural_stability :: "real option"
  bridge_coupling :: "real option"











section \<open>Sample inputs\<close>

text \<open>
  A field state of dimension 3 whose amplitude is not normalized, an adaptive state
  with one weight tensor of four entries and an activation of dimension 4, a
  configuration that sets the cycle budget only, and stand-ins for the absent methods:
  the identity for each phase, a correction of ones of the shape of what it corrects,
  and convergence tests that never hold.
\<close>

definition field_sample :: QuantumState where
  "field_sample =
     \<lparr>amplitude_matrix = [2, 0, 0], phase_matrix = [0, 0, 0], coherence_metric = 0,
      entanglement_pattern = []\<rparr>"

definition adaptive_sample :: NeuralState where
  "adaptive_sample =
     \<lparr>activation_matrix = [0, 0, 0, 0], weight_tensors = [[1, 2, 3, 4]],
      quantum_coupling = [], adaptation_history = []\<rparr>"

definition config_sample :: "int \<Rightarrow> config" where
  "config_sample cycles =
     \<lparr>optimization_cycles = Some cycles, quantum_optimization = None,
      neural_optimization = None, coherence_weights = None\<rparr>"

definition methods_sample :: "nat absent_methods" where
  "methods_sample =
     \<lparr>apply_error_correction = (\<lambda>s. s),
      optimize_phase_alignment = (\<lambda>s. s),
      stabilize_quantum_coherence = (\<lambda>s. s),
      adapt_neural_weights = (\<lambda>n q. n),
      optimize_neural_coherence = (\<lambda>n. n),
      stabilize_neural_patterns = (\<lambda>n. n),
      compute_quantum_corrections =
        (\<lambda>s c. \<lparr>corr_amplitude = map (\<lambda>x. 1) (amplitude_matrix s),
                 corr_phase = map (\<lambda>x. 1) (phase_matrix s)\<rparr>),
      calculate_coherence_metric = (\<lambda>a p. 0),
      check_quantum_convergence = (\<lambda>s s' t. False),
      compute_neural_adaptations =
        (\<lambda>n c. \<lparr>weight_updates = map (map (\<lambda>x. 1)) (weight_tensors n),
                 coupling_updates = []\<rparr>),
      update_quantum_coupling = (\<lambda>c u. c),
      check_neural_convergence = (\<lambda>n n' t. False),
      state_signature_quantum = (\<lambda>s. length (amplitude_matrix s)),
      state_signature_neural = (\<lambda>n. length (weight_tensors n)),
      check_optimization_convergence = (\<lambda>h c. False)\<rparr>"



section \<open>Properties of the coherence metric\<close>

lemma float_max_large: "10 ^ 300 \<le> FLOAT_MAX"
  by (simp add: FLOAT_MAX_def)

lemma cmod_overflow: "FLOAT_MAX < (cmod (10 ^ 200))\<^sup>2"
  by (simp add: FLOAT_MAX_def norm_power)

lemma float_max_small: "r \<le> 100 \<Longrightarrow> r \<le> FLOAT_MAX"
proof -
  assume "r \<le> 100"
  also have "(100::real) = 10 ^ 2" by simp
  also have "(10::real) ^ 2 \<le> 10 ^ 300" by (rule power_increasing) simp_all
  also note float_max_large
  finally show ?thesis .
qed

lemma float_max_pos: "0 < FLOAT_MAX"
proof -
  have "(1::real) \<le> FLOAT_MAX" by (rule float_max_small) simp
  then show ?thesis by linarith
qed

lemma offdiag_matrix:
  "mat_sub (np_outer x (map cnj x)) (np_diag_matrix (np_diag (np_outer x (map cnj x)))) =
   map (\<lambda>i. map (\<lambda>j. if i = j then 0 else x ! i * cnj (x ! j)) [0..<length x]) [0..<length x]"
  by (auto simp: mat_sub_def np_outer_def np_diag_matrix_def np_diag_def intro!: nth_equalityI)

lemma np_sum_abs_upt:
  "np_sum_abs (map (\<lambda>i. map (f i) [0..<n]) [0..<m]) = (\<Sum>i<m. \<Sum>j<n. cmod (f i j))"
  by (simp add: np_sum_abs_def comp_def interv_sum_list_conv_sum_set_nat atLeast0LessThan)

lemma offdiag_sum_refines:
  "np_sum_abs (mat_sub (np_outer x (map cnj x)) (np_diag_matrix (np_diag (np_outer x (map cnj x)))))
     = offdiag_sum x"
  unfolding offdiag_matrix np_sum_abs_upt offdiag_sum_def
  by (intro sum.cong refl) simp

lemma offdiag_sum_nonneg: "0 \<le> offdiag_sum x"
  unfolding offdiag_sum_def by (intro sum_nonneg) simp

lemma product_below_squares:
  fixes a b :: real
  assumes "0 \<le> a" "0 \<le> b" "a\<^sup>2 \<le> M" "b\<^sup>2 \<le> M"
  shows "a * b \<le> M"
proof -
  have "0 \<le> (a - b)\<^sup>2" by simp
  then have "2 * (a * b) \<le> a\<^sup>2 + b\<^sup>2"
    by (simp add: power2_eq_square algebra_simps)
  with assms(3,4) show ?thesis by linarith
qed

lemma rho_overflow_iff:
  "(\<exists>row \<in> set (np_outer x (map cnj x)). \<exists>z \<in> set row. FLOAT_MAX < cmod z)
     \<longleftrightarrow> (\<exists>z \<in> set x. FLOAT_MAX < (cmod z)\<^sup>2)"
proof
  assume "\<exists>row \<in> set (np_outer x (map cnj x)). \<exists>z \<in> set row. FLOAT_MAX < cmod z"
  then obtain a b where ab: "a \<in> set x" "b \<in> set x" "FLOAT_MAX < cmod (a * cnj b)"
    by (auto simp: np_outer_def)
  show "\<exists>z \<in> set x. FLOAT_MAX < (cmod z)\<^sup>2"
  proof (rule ccontr)
    assume "\<not> (\<exists>z \<in> set x. FLOAT_MAX < (cmod z)\<^sup>2)"
    with ab(1,2) have "(cmod a)\<^sup>2 \<le> FLOAT_MAX" "(cmod b)\<^sup>2 \<le> FLOAT_MAX"
      by (auto simp: not_less)
    then have "cmod a * cmod b \<le> FLOAT_MAX"
      by (intro product_below_squares) simp_all
    with ab(3) show False
      by (simp add: norm_mult)
  qed
next
  assume "\<exists>z \<in> set x. FLOAT_MAX < (cmod z)\<^sup>2"
  then obtain z where z: "z \<in> set x" "FLOAT_MAX < (cmod z)\<^sup>2"
    by blast
  have "cmod (z * cnj z) = (cmod z)\<^sup>2"
    by (simp add: norm_mult power2_eq_square)
  moreover have "z * cnj z \<in> set (map (\<lambda>y. z * y) (map cnj x))"
    using z(1) by auto
  moreover have "map (\<lambda>y. z * y) (map cnj x) \<in> set (np_outer x (map cnj x))"
    using z(1) by (auto simp: np_outer_def)
  ultimately show "\<exists>row \<in> set (np_outer x (map cnj x)). \<exists>z \<in> set row. FLOAT_MAX < cmod z"
    using z(2) by metis
qed

lemma calculate_coherence_eq:
  "calculate_coherence D x =
     (if \<exists>z \<in> set x. FLOAT_MAX < (cmod z)\<^sup>2 then NaN
      else if FLOAT_MAX < offdiag_sum x then PosInf
      else if D * (D - 1) = 0 then (if offdiag_sum x = 0 then NaN else PosInf)
      else Finite (offdiag_sum x / real_of_int (D * (D - 1))))"
  unfolding calculate_coherence_def Let_def offdiag_sum_refines rho_overflow_iff
  by (rule refl)

lemma offdiag_sum_single: "offdiag_sum [z] = 0"
  by (simp add: offdiag_sum_def)

text \<open>
  C10, as the claim states it, fails on the code: with dimension 2 the state
  \<open>[10\<^sup>2\<^sup>0\<^sup>0, 10\<^sup>2\<^sup>0\<^sup>0]\<close>, which has dimension 2, has no well-defined value. The
  diagonal of \<open>\<rho>\<close> overflows and the result is NaN.
\<close>

theorem calculate_coherence_overflow_counterexample:
  "length [10 ^ 200, 10 ^ 200 :: complex] = 2 \<and>
   calculate_coherence 2 [10 ^ 200, 10 ^ 200] = NaN"
proof -
  have "FLOAT_MAX < (cmod (10 ^ 200))\<^sup>2"
    by (rule cmod_overflow)
  then show ?thesis
    by (simp add: calculate_coherence_eq)
qed

text \<open>
  C10, amended. \<open>calculate_coherence\<close> divides the off-diagonal sum by \<open>D \<sqdot> (D - 1)\<close>
  with no guard. For \<open>D \<ge> 2\<close> and every state whose entries have squared magnitudes
  within the float64 range, and whose off-diagonal sum is within it, the value before any
  clipping is the nonnegative real \<open>\<Sum>\<^bsub>i\<noteq>j\<^esub> |x\<^bsub>i\<^esub> conj(x\<^bsub>j\<^esub>)| / (D \<sqdot> (D - 1))\<close>. A state with
  an entry whose squared magnitude is beyond that range yields NaN, whatever \<open>D\<close> is. For
  \<open>D = 0\<close> and \<open>D = 1\<close> the divisor is zero and the unguarded quotient is NaN or an
  infinity; for a one-dimensional state with \<open>D = 1\<close> it is NaN.
\<close>

theorem calculate_coherence_dimension_guard:
  "((\<forall>z \<in> set x. (cmod z)\<^sup>2 \<le> FLOAT_MAX) \<and> offdiag_sum x \<le> FLOAT_MAX \<and> 2 \<le> D \<longrightarrow>
      calculate_coherence D x = Finite (offdiag_sum x / real_of_int (D * (D - 1))) \<and>
      0 \<le> offdiag_sum x / real_of_int (D * (D - 1))) \<and>
   ((\<exists>z \<in> set x. FLOAT_MAX < (cmod z)\<^sup>2) \<longrightarrow> calculate_coherence D x = NaN) \<and>
   (D = 0 \<or> D = 1 \<longrightarrow> calculate_coherence D x = NaN \<or> calculate_coherence D x = PosInf) \<and>
   calculate_coherence 1 [z] = NaN"
proof (intro conjI impI)
  assume a: "(\<forall>z \<in> set x. (cmod z)\<^sup>2 \<le> FLOAT_MAX) \<and> offdiag_sum x \<le> FLOAT_MAX \<and> 2 \<le> D"
  then have "0 < D * (D - 1)" by simp
  then have pos: "0 < real_of_int (D * (D - 1))" by (simp only: of_int_0_less_iff)
  from a pos show "calculate_coherence D x = Finite (offdiag_sum x / real_of_int (D * (D - 1)))"
    by (auto simp: calculate_coherence_eq not_less)
  from pos show "0 \<le> offdiag_sum x / real_of_int (D * (D - 1))"
    using offdiag_sum_nonneg [of x] by (intro divide_nonneg_nonneg) linarith+
next
  assume "\<exists>z \<in> set x. FLOAT_MAX < (cmod z)\<^sup>2"
  then show "calculate_coherence D x = NaN"
    by (simp add: calculate_coherence_eq)
next
  assume "D = 0 \<or> D = 1"
  then have "D * (D - 1) = 0" by auto
  then show "calculate_coherence D x = NaN \<or> calculate_coherence D x = PosInf"
    by (simp add: calculate_coherence_eq)
next
  show "calculate_coherence 1 [z] = NaN"
    using float_max_pos by (simp add: calculate_coherence_eq offdiag_sum_single)
qed

theorem calculate_coherence_dimension_guard_witness:
  "offdiag_sum [1, \<i>] \<le> FLOAT_MAX \<and>
   calculate_coherence 2 [1, \<i>] = Finite (offdiag_sum [1, \<i>] / real_of_int (2 * (2 - 1))) \<and>
   0 \<le> offdiag_sum [1, \<i>] / real_of_int (2 * (2 - 1)) \<and>
   FLOAT_MAX < (cmod (10 ^ 200))\<^sup>2 \<and>
   calculate_coherence 5 [1, 10 ^ 200] = NaN \<and>
   (calculate_coherence 1 [1, \<i>] = NaN \<or> calculate_coherence 1 [1, \<i>] = PosInf) \<and>
   calculate_coherence 1 [\<i>] = NaN"
proof -
  have sum: "offdiag_sum [1, \<i>] = 2"
    by (simp add: offdiag_sum_def lessThan_Suc)
  have entries: "\<forall>z \<in> set [1, \<i>]. (cmod z)\<^sup>2 \<le> FLOAT_MAX"
    by (simp add: float_max_small)
  have small: "offdiag_sum [1, \<i>] \<le> FLOAT_MAX"
    by (simp add: sum float_max_small)
  have big: "FLOAT_MAX < (cmod (10 ^ 200))\<^sup>2"
    by (rule cmod_overflow)
  then have ex: "\<exists>z \<in> set [1, 10 ^ 200]. FLOAT_MAX < (cmod z)\<^sup>2"
    by simp
  have one: "(1::int) = 0 \<or> (1::int) = 1" and two: "(2::int) \<le> 2"
    by simp_all
  from calculate_coherence_dimension_guard [of "[1, \<i>]" 2 \<i>] entries small two
  have a: "calculate_coherence 2 [1, \<i>] = Finite (offdiag_sum [1, \<i>] / real_of_int (2 * (2 - 1)))"
      "0 \<le> offdiag_sum [1, \<i>] / real_of_int (2 * (2 - 1))"
    by blast+
  from calculate_coherence_dimension_guard [of "[1, 10 ^ 200]" 5 \<i>] ex
  have b: "calculate_coherence 5 [1, 10 ^ 200] = NaN"
    by blast
  from calculate_coherence_dimension_guard [of "[1, \<i>]" 1 \<i>] one
  have c: "calculate_coherence 1 [1, \<i>] = NaN \<or> calculate_coherence 1 [1, \<i>] = PosInf"
    "calculate_coherence 1 [\<i>] = NaN"
    by blast+
  from small a big b c show ?thesis
    by (intro conjI)
qed

text \<open>
  C4, as the claim states it, fails on the code: \<open>calculate_coherence\<close> does not clip.
  With dimension 2 the unnormalized state \<open>[2, 2]\<close> has coherence 4.
\<close>

theorem calculate_coherence_unclipped_counterexample:
  "calculate_coherence 2 [2, 2] = Finite 4 \<and> MAX_COHERENCE < 4"
proof -
  have "offdiag_sum [2, 2] = 8"
    by (simp add: offdiag_sum_def lessThan_Suc norm_mult)
  moreover have "(8::real) \<le> FLOAT_MAX" "(4::real) \<le> FLOAT_MAX"
    by (simp_all add: float_max_small)
  ultimately show ?thesis
    by (simp add: calculate_coherence_eq MAX_COHERENCE_def EPSILON_def not_less)
qed

text \<open>
  C4, amended. For every state and every dimension other than 0 and 1, with the squared
  magnitudes of the entries and the off-diagonal sum within the float64 range,
  \<open>calculate_coherence\<close> returns the sum of the magnitudes of the off-diagonal entries
  of \<open>\<rho> = outer(x, conj(x))\<close> divided by \<open>D \<sqdot> (D - 1)\<close>, where \<open>D\<close> is the dimension the
  object was built with, and does not clip it. Clipping is the separate helper
  \<open>_bound_coherence\<close>, which \<open>calculate_coherence\<close> does not call: it maps every finite
  number and both infinities into \<open>[0, 1 - \<epsilon>]\<close>, leaves a value of that range unchanged,
  and maps NaN to NaN.
\<close>

theorem calculate_coherence_formula_and_bound:
  "((\<forall>z \<in> set x. (cmod z)\<^sup>2 \<le> FLOAT_MAX) \<and> offdiag_sum x \<le> FLOAT_MAX \<and> D \<noteq> 0 \<and> D \<noteq> 1 \<longrightarrow>
      calculate_coherence D x = Finite (offdiag_sum x / real_of_int (D * (D - 1)))) \<and>
   (\<exists>w. bound_coherence (Finite v) = Finite w \<and> 0 \<le> w \<and> w \<le> MAX_COHERENCE) \<and>
   (0 \<le> v \<and> v \<le> MAX_COHERENCE \<longrightarrow> bound_coherence (Finite v) = Finite v) \<and>
   bound_coherence PosInf = Finite MAX_COHERENCE \<and>
   bound_coherence NegInf = Finite 0 \<and>
   bound_coherence NaN = NaN"
proof (intro conjI impI)
  assume "(\<forall>z \<in> set x. (cmod z)\<^sup>2 \<le> FLOAT_MAX) \<and> offdiag_sum x \<le> FLOAT_MAX \<and> D \<noteq> 0 \<and> D \<noteq> 1"
  then show "calculate_coherence D x = Finite (offdiag_sum x / real_of_int (D * (D - 1)))"
    by (auto simp: calculate_coherence_eq not_less)
next
  show "\<exists>w. bound_coherence (Finite v) = Finite w \<and> 0 \<le> w \<and> w \<le> MAX_COHERENCE"
    by (simp add: MAX_COHERENCE_def EPSILON_def)
next
  assume "0 \<le> v \<and> v \<le> MAX_COHERENCE"
  then show "bound_coherence (Finite v) = Finite v"
    by simp
qed simp_all

theorem calculate_coherence_formula_and_bound_witness:
  "offdiag_sum [2, 2] \<le> FLOAT_MAX \<and>
   calculate_coherence 2 [2, 2] = Finite (offdiag_sum [2, 2] / real_of_int (2 * (2 - 1))) \<and>
   (\<exists>w. bound_coherence (Finite 4) = Finite w \<and> 0 \<le> w \<and> w \<le> MAX_COHERENCE) \<and>
   (0::real) \<le> 1 / 2 \<and> 1 / 2 \<le> MAX_COHERENCE \<and>
   bound_coherence (Finite (1 / 2)) = Finite (1 / 2) \<and>
   bound_coherence NaN = NaN"
proof -
  have sum: "offdiag_sum [2, 2] = 8"
    by (simp add: offdiag_sum_def lessThan_Suc norm_mult)
  have entries: "\<forall>z \<in> set [2, 2 :: complex]. (cmod z)\<^sup>2 \<le> FLOAT_MAX"
    by (simp add: float_max_small)
  have small: "offdiag_sum [2, 2] \<le> FLOAT_MAX"
    by (simp add: sum float_max_small)
  have d: "(2::int) \<noteq> 0 \<and> (2::int) \<noteq> 1"
    by simp
  have range: "(0::real) \<le> 1 / 2" "1 / 2 \<le> MAX_COHERENCE"
    by (simp_all add: MAX_COHERENCE_def EPSILON_def)
  from calculate_coherence_formula_and_bound [of "[2, 2]" 2 4] entries small d
  have a: "calculate_coherence 2 [2, 2] = Finite (offdiag_sum [2, 2] / real_of_int (2 * (2 - 1)))"
    "\<exists>w. bound_coherence (Finite 4) = Finite w \<and> 0 \<le> w \<and> w \<le> MAX_COHERENCE"
    by blast+
  from calculate_coherence_formula_and_bound [of "[2, 2]" 2 "1 / 2"] range
  have b: "bound_coherence (Finite (1 / 2)) = Finite (1 / 2)" "bound_coherence NaN = NaN"
    by blast+
  from small a range b show ?thesis
    by (intro conjI)
qed


section \<open>Properties of normalization\<close>

lemma EPSILON_pos: "0 < EPSILON"
  by (simp add: EPSILON_def)

lemma EPSILON_less_one: "EPSILON < 1"
  by (simp add: EPSILON_def)

lemma norm_sq_nonneg: "0 \<le> norm_sq x"
  unfolding norm_sq_def by (auto intro!: sum_list_nonneg)

lemma np_vdot_self: "np_vdot x x = complex_of_real (norm_sq x)"
  by (induction x)
    (simp_all add: np_vdot_def norm_sq_def complex_norm_square [symmetric] mult.commute
      del: of_real_power)

lemma cmod_vdot_self: "cmod (np_vdot x x) = norm_sq x"
  by (simp add: np_vdot_self norm_sq_nonneg)

lemma norm_sq_scale: "norm_sq (map (\<lambda>z. z / complex_of_real s) x) = norm_sq x / s\<^sup>2"
  by (induction x) (simp_all add: norm_sq_def norm_divide power_divide add_divide_distrib)

lemma normalize_eq:
  "norm_sq x \<le> FLOAT_MAX \<Longrightarrow>
     normalize_quantum_state x = map (\<lambda>z. z / complex_of_real (sqrt (norm_sq x + EPSILON))) x"
  by (simp add: normalize_quantum_state_def Let_def cmod_vdot_self not_less)

lemma normalize_overflow:
  "FLOAT_MAX < norm_sq x \<Longrightarrow> normalize_quantum_state x = map (\<lambda>z. 0) x"
  by (simp add: normalize_quantum_state_def cmod_vdot_self)

lemma norm_sq_normalize:
  assumes "norm_sq x \<le> FLOAT_MAX"
  shows "norm_sq (normalize_quantum_state x) = norm_sq x / (norm_sq x + EPSILON)"
proof -
  have "0 \<le> norm_sq x + EPSILON"
    using norm_sq_nonneg [of x] EPSILON_pos by linarith
  then show ?thesis
    by (simp add: normalize_eq [OF assms] norm_sq_scale)
qed

lemma l2_norm_normalize:
  "norm_sq x \<le> FLOAT_MAX \<Longrightarrow>
     l2_norm (normalize_quantum_state x) = sqrt (norm_sq x / (norm_sq x + EPSILON))"
  by (simp add: l2_norm_def norm_sq_normalize)

lemma norm_sq_zero_entries: "norm_sq x = 0 \<Longrightarrow> z \<in> set x \<Longrightarrow> z = 0"
proof (induction x)
  case Nil
  then show ?case by simp
next
  case (Cons a x)
  have "0 \<le> (cmod a)\<^sup>2" "0 \<le> norm_sq x"
    by (simp_all add: norm_sq_nonneg)
  moreover have "(cmod a)\<^sup>2 + norm_sq x = 0"
    using Cons.prems(1) by (simp add: norm_sq_def)
  ultimately have "(cmod a)\<^sup>2 = 0" "norm_sq x = 0"
    by linarith+
  with Cons show ?case by auto
qed

lemma normalize_zero:
  assumes "norm_sq x = 0"
  shows "normalize_quantum_state x = x"
proof -
  have r: "norm_sq x \<le> FLOAT_MAX"
    using assms float_max_pos by simp
  show ?thesis
    unfolding normalize_eq [OF r]
    by (intro map_idI) (auto dest: norm_sq_zero_entries [OF assms])
qed

lemma sqrt_ratio_less_one:
  fixes n e :: real
  assumes "0 < e" "0 \<le> n"
  shows "sqrt (n / (n + e)) < 1"
proof -
  have "n / (n + e) < 1" using assms by (simp add: field_simps)
  then show ?thesis by (simp add: real_sqrt_lt_1_iff)
qed

lemma sqrt_ratio_close:
  fixes n e :: real
  assumes e: "0 < e" "e < 1" and n: "0 \<le> n"
  shows "\<bar>sqrt (n / (n + e)) - 1\<bar> < e \<longleftrightarrow> (1 - e)\<^sup>2 / (2 - e) < n"
proof -
  have pos: "0 < n + e" using e n by linarith
  have "sqrt (n / (n + e)) < 1" using e n by (simp add: sqrt_ratio_less_one)
  then have "\<bar>sqrt (n / (n + e)) - 1\<bar> < e \<longleftrightarrow> 1 - e < sqrt (n / (n + e))" by linarith
  also have "\<dots> \<longleftrightarrow> sqrt ((1 - e)\<^sup>2) < sqrt (n / (n + e))" using e by simp
  also have "\<dots> \<longleftrightarrow> (1 - e)\<^sup>2 < n / (n + e)" by (rule real_sqrt_less_iff)
  also have "\<dots> \<longleftrightarrow> (1 - e)\<^sup>2 * (n + e) < n" using pos by (simp add: pos_less_divide_eq)
  also have "\<dots> \<longleftrightarrow> (1 - e)\<^sup>2 * e < n * (e * (2 - e))"
    by (simp add: algebra_simps power2_eq_square)
  also have "\<dots> \<longleftrightarrow> (1 - e)\<^sup>2 < n * (2 - e)" using e
    by (metis mult.assoc mult.commute mult_less_cancel_left_pos)
  also have "\<dots> \<longleftrightarrow> (1 - e)\<^sup>2 / (2 - e) < n" using e by (simp add: pos_divide_less_eq)
  finally show ?thesis .
qed

lemma normalize_close_iff:
  "norm_sq x \<le> FLOAT_MAX \<Longrightarrow>
     \<bar>l2_norm (normalize_quantum_state x) - 1\<bar> < EPSILON
       \<longleftrightarrow> (1 - EPSILON)\<^sup>2 / (2 - EPSILON) < norm_sq x"
  unfolding l2_norm_normalize
  by (rule sqrt_ratio_close [OF EPSILON_pos EPSILON_less_one norm_sq_nonneg])

lemma half_above_bound: "(1 - EPSILON)\<^sup>2 / (2 - EPSILON) < 1 / 2"
  by (simp add: EPSILON_def power2_eq_square)

text \<open>
  C6, as the claim states it, fails on the code: the nonzero vector \<open>[10\<^sup>-\<^sup>6]\<close>, whose
  squared norm equals \<open>\<epsilon>\<close>, is normalized to a vector of norm \<open>sqrt (1/2)\<close>.
\<close>

theorem normalize_small_input_counterexample:
  "norm_sq [1 / 10 ^ 6] \<noteq> 0 \<and>
   \<not> \<bar>l2_norm (normalize_quantum_state [1 / 10 ^ 6]) - 1\<bar> < EPSILON"
proof -
  have n: "norm_sq [1 / 10 ^ 6] = 1 / 10 ^ 12"
    by (simp add: norm_sq_def norm_divide power_divide)
  then have r: "norm_sq [1 / 10 ^ 6] \<le> FLOAT_MAX"
    by (simp add: float_max_small)
  have "\<not> (1 - EPSILON)\<^sup>2 / (2 - EPSILON) < 1 / 10 ^ 12"
    by (simp add: EPSILON_def power2_eq_square)
  then have "\<not> \<bar>l2_norm (normalize_quantum_state [1 / 10 ^ 6]) - 1\<bar> < EPSILON"
    unfolding normalize_close_iff [OF r] n .
  moreover have "norm_sq [1 / 10 ^ 6] \<noteq> 0"
    unfolding n by simp
  ultimately show ?thesis
    by (intro conjI)
qed

text \<open>
  C6, amended. \<open>_normalize_quantum_state\<close>, the normalization of processor.py that adds
  \<open>\<epsilon>\<close>, never raises: \<open>|\<langle>x,x\<rangle>|\<close> is the sum of the squared magnitudes of the entries; while
  that is within the float64 range the divisor \<open>sqrt (|\<langle>x,x\<rangle>| + \<epsilon>)\<close> is positive and the
  result is the input divided by it, and beyond that range the divisor is infinite and
  the result is the zero vector. A zero-norm input is returned unchanged. The norm of
  the result is within \<open>\<epsilon>\<close> of 1 for every input whose squared norm lies between 1 and
  \<open>10\<^sup>3\<^sup>0\<^sup>0\<close>, not for every nonzero input.
\<close>

theorem normalize_quantum_state_norm:
  "cmod (np_vdot x x) = norm_sq x \<and>
   (norm_sq x \<le> FLOAT_MAX \<longrightarrow>
      0 < sqrt (norm_sq x + EPSILON) \<and>
      normalize_quantum_state x = map (\<lambda>z. z / complex_of_real (sqrt (norm_sq x + EPSILON))) x) \<and>
   (FLOAT_MAX < norm_sq x \<longrightarrow> normalize_quantum_state x = map (\<lambda>z. 0) x) \<and>
   (norm_sq x = 0 \<longrightarrow> normalize_quantum_state x = x) \<and>
   (1 \<le> norm_sq x \<and> norm_sq x \<le> 10 ^ 300 \<longrightarrow>
      \<bar>l2_norm (normalize_quantum_state x) - 1\<bar> < EPSILON)"
proof (intro conjI impI)
  show "cmod (np_vdot x x) = norm_sq x"
    by (rule cmod_vdot_self)
  show "0 < sqrt (norm_sq x + EPSILON)"
    using norm_sq_nonneg [of x] EPSILON_pos by simp
next
  assume "norm_sq x \<le> FLOAT_MAX"
  then show "normalize_quantum_state x
      = map (\<lambda>z. z / complex_of_real (sqrt (norm_sq x + EPSILON))) x"
    by (rule normalize_eq)
next
  assume "FLOAT_MAX < norm_sq x"
  then show "normalize_quantum_state x = map (\<lambda>z. 0) x"
    by (rule normalize_overflow)
next
  assume "norm_sq x = 0"
  then show "normalize_quantum_state x = x"
    by (rule normalize_zero)
next
  assume a: "1 \<le> norm_sq x \<and> norm_sq x \<le> 10 ^ 300"
  then have range: "norm_sq x \<le> FLOAT_MAX"
    by (intro order_trans [OF _ float_max_large]) simp
  from a have "(1 - EPSILON)\<^sup>2 / (2 - EPSILON) < norm_sq x"
    using half_above_bound by linarith
  then show "\<bar>l2_norm (normalize_quantum_state x) - 1\<bar> < EPSILON"
    by (simp only: normalize_close_iff [OF range])
qed

theorem normalize_quantum_state_norm_witness:
  "norm_sq [0, 0] = 0 \<and> normalize_quantum_state [0, 0] = [0, 0] \<and>
   1 \<le> norm_sq [1, \<i>] \<and> norm_sq [1, \<i>] \<le> 10 ^ 300 \<and> norm_sq [1, \<i>] \<le> FLOAT_MAX \<and>
   normalize_quantum_state [1, \<i>]
     = map (\<lambda>z. z / complex_of_real (sqrt (norm_sq [1, \<i>] + EPSILON))) [1, \<i>] \<and>
   \<bar>l2_norm (normalize_quantum_state [1, \<i>]) - 1\<bar> < EPSILON \<and>
   FLOAT_MAX < norm_sq [10 ^ 200] \<and>
   normalize_quantum_state [10 ^ 200] = map (\<lambda>z. 0) [10 ^ 200 :: complex]"
proof -
  have zero: "norm_sq [0, 0] = 0"
    by (simp add: norm_sq_def)
  have two: "norm_sq [1, \<i>] = 2"
    by (simp add: norm_sq_def)
  have "(2::real) \<le> 10 ^ 1" by simp
  also have "(10::real) ^ 1 \<le> 10 ^ 300" by (rule power_increasing) simp_all
  finally have large: "1 \<le> norm_sq [1, \<i>]" "norm_sq [1, \<i>] \<le> 10 ^ 300"
    by (simp_all add: two)
  have range: "norm_sq [1, \<i>] \<le> FLOAT_MAX"
    by (simp add: two float_max_small)
  have over: "FLOAT_MAX < norm_sq [10 ^ 200]"
    using cmod_overflow by (simp add: norm_sq_def)
  from normalize_quantum_state_norm [of "[0, 0]"] zero
  have a: "normalize_quantum_state [0, 0] = [0, 0]"
    by blast
  from normalize_quantum_state_norm [of "[1, \<i>]"] large range
  have b: "normalize_quantum_state [1, \<i>]
     = map (\<lambda>z. z / complex_of_real (sqrt (norm_sq [1, \<i>] + EPSILON))) [1, \<i>]"
    "\<bar>l2_norm (normalize_quantum_state [1, \<i>]) - 1\<bar> < EPSILON"
    by blast+
  from normalize_quantum_state_norm [of "[10 ^ 200]"] over
  have c: "normalize_quantum_state [10 ^ 200] = map (\<lambda>z. 0) [10 ^ 200 :: complex]"
    by blast
  from zero a large range b over c show ?thesis
    by (intro conjI)
qed


section \<open>Properties of the combined score\<close>










section \<open>Properties of the coherence tracker\<close>

lemma all_less_three: "(\<forall>i<3. P i) \<longleftrightarrow> P 0 \<and> P 1 \<and> P (2::nat)"
proof -
  have "\<And>i::nat. i < 3 \<longleftrightarrow> i = 0 \<or> i = 1 \<or> i = 2" by arith
  then show ?thesis by auto
qed

lemma last_three:
  assumes "3 \<le> length h"
  shows "list_all P (last_n 3 h) \<longleftrightarrow> (\<forall>i<3. P (h ! (length h - 1 - i)))"
proof -
  have len: "length (last_n 3 h) = 3"
    using assms by (simp add: last_n_def)
  have nth: "last_n 3 h ! i = h ! (length h - 3 + i)" if "i < 3" for i
    using that assms by (simp add: last_n_def)
  have "list_all P (last_n 3 h) \<longleftrightarrow> (\<forall>i<3. P (last_n 3 h ! i))"
    by (simp add: list_all_length len)
  also have "\<dots> \<longleftrightarrow> P (h ! (length h - 3)) \<and> P (h ! (length h - 3 + 1)) \<and> P (h ! (length h - 3 + 2))"
    by (simp add: all_less_three nth)
  also have "\<dots> \<longleftrightarrow> P (h ! (length h - 1 - 2)) \<and> P (h ! (length h - 1 - 1)) \<and> P (h ! (length h - 1 - 0))"
  proof -
    have "length h - 3 = length h - 1 - 2" "length h - 3 + 1 = length h - 1 - 1"
      "length h - 3 + 2 = length h - 1 - 0"
      using assms by arith+
    then show ?thesis by simp
  qed
  also have "\<dots> \<longleftrightarrow> (\<forall>i<3. P (h ! (length h - 1 - i)))"
    by (simp only: all_less_three) blast
  finally show ?thesis .
qed

text \<open>
  C2, as the claim states it, fails on the code. After the updates 1, 0, 0, 0 a tracker
  with threshold 0.95 is optimal, since its last three deltas are 0; but the fourth
  delta from the end is 1, so for the window 4 the predicate of the claim is false.
\<close>

theorem window_four_counterexample:
  "is_optimal (update (update (update (update (CoherenceTracker_init ''CT'' (95 / 100)) 1) 0) 0) 0)
   \<and> \<not> is_converged_spec 4 (95 / 100)
        (update (update (update (update (CoherenceTracker_init ''CT'' (95 / 100)) 1) 0) 0) 0)"
proof
  let ?t = "update (update (update (update (CoherenceTracker_init ''CT'' (95 / 100)) 1) 0) 0) 0"
  have h: "coherence_history ?t =
      [\<lparr>coherence = 1, delta = 1\<rparr>, \<lparr>coherence = 1, delta = 0\<rparr>,
       \<lparr>coherence = 1, delta = 0\<rparr>, \<lparr>coherence = 1, delta = 0\<rparr>]"
    and c: "current_coherence ?t = 1" and s: "stability_threshold ?t = 95 / 100"
    by (simp_all add: update_def CoherenceTracker_init_def Let_def)
  show "is_optimal ?t"
    unfolding is_optimal_def h c s by (simp add: last_n_def)
  show "\<not> is_converged_spec 4 (95 / 100) ?t"
  proof
    assume "is_converged_spec 4 (95 / 100) ?t"
    then have "\<forall>i<4. \<bar>delta (coherence_history ?t ! (length (coherence_history ?t) - 1 - i))\<bar>
        < 1 / 100"
      unfolding is_converged_spec_def by (elim conjE)
    then have "3 < (4::nat) \<longrightarrow>
        \<bar>delta (coherence_history ?t ! (length (coherence_history ?t) - 1 - 3))\<bar> < 1 / 100"
      by (rule spec)
    then show False
      unfolding h by simp
  qed
qed

text \<open>
  C2, amended. The tracker's predicate takes no argument: its window is the constant 3
  and its threshold is the \<open>stability_threshold\<close> the tracker was built with. It returns
  true if and only if the history has at least 3 records, the current score is at least
  that threshold, and each of the last 3 recorded deltas satisfies \<open>|delta| < 0.01\<close>.
\<close>

theorem is_optimal_iff_window_three:
  "is_optimal t \<longleftrightarrow> is_converged_spec 3 (stability_threshold t) t"
proof (cases "3 \<le> length (coherence_history t)")
  case True
  then show ?thesis
    unfolding is_optimal_def is_converged_spec_def
    by (simp only: last_three [OF True]) blast
next
  case False
  then show ?thesis
    by (simp add: is_optimal_def is_converged_spec_def)
qed

theorem is_optimal_iff_window_three_witness:
  "is_optimal (update (update (update (CoherenceTracker_init ''CT'' 0) 0) 0) 0) \<and>
   is_converged_spec 3 0 (update (update (update (CoherenceTracker_init ''CT'' 0) 0) 0) 0) \<and>
   \<not> is_optimal (update (CoherenceTracker_init ''CT'' 0) 0)"
proof -
  let ?t = "update (update (update (CoherenceTracker_init ''CT'' 0) 0) 0) 0"
  have a: "is_optimal ?t"
    by (simp add: is_optimal_def update_def CoherenceTracker_init_def Let_def last_n_def)
  have s: "stability_threshold ?t = 0"
    by (simp add: update_def CoherenceTracker_init_def Let_def)
  have b: "\<not> is_optimal (update (CoherenceTracker_init ''CT'' 0) 0)"
    by (simp add: is_optimal_def update_def CoherenceTracker_init_def Let_def)
  from a is_optimal_iff_window_three [of ?t] have "is_converged_spec 3 (stability_threshold ?t) ?t"
    by (rule rev_iffD1)
  then have "is_converged_spec 3 0 ?t"
    by (simp only: s)
  with a b show ?thesis by (intro conjI)
qed

section \<open>Properties of the bridge\<close>











section \<open>Properties of the coupling matrix\<close>

lemma np_mean_axis0_uniform:
  assumes "rows \<noteq> []" and "\<forall>r \<in> set rows. length r = N"
  shows "\<exists>v. np_mean_axis0 rows = Inr (map Some v) \<and> length v = N"
proof -
  have "hd rows \<in> set rows" using assms(1) by simp
  then have len: "length (hd rows) = N" using assms(2) by blast
  let ?v = "map (\<lambda>j. sum_list (map (\<lambda>r. r ! j) rows) / real (length rows)) [0..<length (hd rows)]"
  have "np_mean_axis0 rows = Inr (map Some ?v)"
    using assms len by (simp add: np_mean_axis0_def comp_def)
  moreover have "length ?v = N"
    using len by simp
  ultimately show ?thesis by blast
qed

lemma np_broadcast_ValueError:
  "np_broadcast f a b = Inl ValueError \<longleftrightarrow>
     length a \<noteq> length b \<and> length a \<noteq> 1 \<and> length b \<noteq> 1"
  by (simp add: np_broadcast_def)

lemma np_broadcast_failure: "np_broadcast f a b = Inl e \<Longrightarrow> e = ValueError"
  unfolding np_broadcast_def
  by (cases "length a = length b"; cases "length a = 1"; cases "length b = 1") simp_all

lemma np_mean_axis0_empty: "np_mean_axis0 [] = Inr [None]"
  unfolding np_mean_axis0_def if_P [OF refl] ..

lemma np_mean_axis0_ragged:
  assumes "\<exists>r \<in> set rows. length r \<noteq> length (hd rows)"
  shows "np_mean_axis0 rows = Inl ValueError"
proof -
  from assms have nonempty: "rows \<noteq> []"
    by (rule bexE) (rule contrapos_pn, assumption, simp)
  show ?thesis
    unfolding np_mean_axis0_def if_not_P [OF nonempty] if_P [OF assms] ..
qed

lemma np_mean_axis0_regular:
  assumes "rows \<noteq> []" and "\<not> (\<exists>r \<in> set rows. length r \<noteq> length (hd rows))"
  shows "\<exists>v. np_mean_axis0 rows = Inr v"
  unfolding np_mean_axis0_def if_not_P [OF assms(1)] if_not_P [OF assms(2)]
  by (rule exI) (rule refl)

lemma np_mean_axis0_returns:
  assumes "\<not> (\<exists>r \<in> set rows. length r \<noteq> length (hd rows))"
  shows "\<exists>v. np_mean_axis0 rows = Inr v"
proof (cases "rows = []")
  case True
  then show ?thesis
    using np_mean_axis0_empty by blast
next
  case False
  then show ?thesis
    using assms by (rule np_mean_axis0_regular)
qed

lemma np_mean_axis0_failure:
  assumes "np_mean_axis0 rows = Inl e"
  shows "e = ValueError"
proof (cases "\<exists>r \<in> set rows. length r \<noteq> length (hd rows)")
  case True
  then have "np_mean_axis0 rows = Inl ValueError"
    by (rule np_mean_axis0_ragged)
  with assms show ?thesis by simp
next
  case False
  then obtain v where "np_mean_axis0 rows = Inr v"
    using np_mean_axis0_returns by blast
  with assms show ?thesis by simp
qed

lemma coupling_only_failure:
  assumes "calculate_coupling_matrix q n = Inl e"
  shows "e = ValueError"
proof (cases "np_mean_axis0 (weight_tensors n)")
  case (Inl e')
  with assms have "e = e'"
    by (simp add: calculate_coupling_matrix_def)
  with Inl show ?thesis
    by (simp add: np_mean_axis0_failure)
next
  case (Inr v)
  with assms show ?thesis
    by (auto simp: calculate_coupling_matrix_def dest: np_broadcast_failure)
qed

lemma coupling_failure_iff:
  "calculate_coupling_matrix q n = Inl ValueError \<longleftrightarrow>
     (\<exists>r \<in> set (weight_tensors n). length r \<noteq> length (hd (weight_tensors n))) \<or>
     (length (amplitude_matrix q) \<noteq> length (phase_matrix q) \<and>
      length (amplitude_matrix q) \<noteq> 1 \<and> length (phase_matrix q) \<noteq> 1)"
proof (cases "\<exists>r \<in> set (weight_tensors n). length r \<noteq> length (hd (weight_tensors n))")
  case True
  then have "np_mean_axis0 (weight_tensors n) = Inl ValueError"
    by (rule np_mean_axis0_ragged)
  then have "calculate_coupling_matrix q n = Inl ValueError"
    by (simp add: calculate_coupling_matrix_def)
  with True show ?thesis
    by (intro iffI disjI1)
next
  case False
  then obtain v where v: "np_mean_axis0 (weight_tensors n) = Inr v"
    using np_mean_axis0_returns by blast
  have "calculate_coupling_matrix q n =
      np_broadcast (\<lambda>row ph. map (map_option (\<lambda>c. complex_of_real c * ph)) row)
        (map (\<lambda>x. map (map_option (\<lambda>y. cmod (x * complex_of_real y))) v) (amplitude_matrix q))
        (map (\<lambda>p. cis (np_angle p)) (phase_matrix q))"
    by (simp add: calculate_coupling_matrix_def v)
  then have "calculate_coupling_matrix q n = Inl ValueError \<longleftrightarrow>
      length (amplitude_matrix q) \<noteq> length (phase_matrix q) \<and>
      length (amplitude_matrix q) \<noteq> 1 \<and> length (phase_matrix q) \<noteq> 1"
    by (simp only: np_broadcast_ValueError length_map)
  then show ?thesis
    using False by blast
qed

lemma coupling_matrix_rows:
  assumes "length (phase_matrix q) = length (amplitude_matrix q)"
    and "weight_tensors n \<noteq> []" and "\<forall>t \<in> set (weight_tensors n). length t = N"
  shows "\<exists>M. calculate_coupling_matrix q n = Inr M \<and>
           length M = length (amplitude_matrix q) \<and>
           (\<forall>row \<in> set M. length row = N)"
proof -
  obtain v where v: "np_mean_axis0 (weight_tensors n) = Inr (map Some v)" "length v = N"
    using np_mean_axis0_uniform [OF assms(2,3)] by blast
  let ?S = "map (\<lambda>x. map (map_option (\<lambda>y. cmod (x * complex_of_real y))) (map Some v))
      (amplitude_matrix q)"
  let ?P = "map (\<lambda>p. cis (np_angle p)) (phase_matrix q)"
  let ?M = "map2 (\<lambda>row ph. map (map_option (\<lambda>c. complex_of_real c * ph)) row) ?S ?P"
  have "calculate_coupling_matrix q n = Inr ?M"
    using assms(1) by (simp add: calculate_coupling_matrix_def v np_broadcast_def)
  moreover have "length ?M = length (amplitude_matrix q)"
    using assms(1) by simp
  moreover have "\<forall>row \<in> set ?M. length row = N"
    using v(2) by (auto dest!: set_zip_leftD)
  ultimately show ?thesis by blast
qed

lemma coupling_matrix_no_weights:
  assumes "length (phase_matrix q) = length (amplitude_matrix q)" and "weight_tensors n = []"
  shows "calculate_coupling_matrix q n = Inr (replicate (length (amplitude_matrix q)) [None])"
proof -
  have "map2 (\<lambda>row ph. map (map_option (\<lambda>c. complex_of_real c * ph)) row)
      (map (\<lambda>x. [None]) a) p = replicate (length a) [None]"
    if "length p = length a" for a :: "complex list" and p :: "complex list"
    using that by (induction p a rule: list_induct2) simp_all
  from this [of "map (\<lambda>p. cis (np_angle p)) (phase_matrix q)" "amplitude_matrix q"] assms
  show ?thesis
    by (simp add: calculate_coupling_matrix_def np_mean_axis0_empty np_broadcast_def)
qed

lemma sample_signature: "np_mean_axis0 [[1, 2, 3, 4]] = Inr [Some 1, Some 2, Some 3, Some 4]"
  by (simp add: np_mean_axis0_def)

lemma sample_coupling:
  "calculate_coupling_matrix field_sample adaptive_sample
     = Inr [[Some 2, Some 4, Some 6, Some 8], [Some 0, Some 0, Some 0, Some 0],
            [Some 0, Some 0, Some 0, Some 0]]"
proof -
  have sig: "np_mean_axis0 (weight_tensors adaptive_sample) = Inr [Some 1, Some 2, Some 3, Some 4]"
    by (simp add: adaptive_sample_def sample_signature)
  have amp: "amplitude_matrix field_sample = [2, 0, 0]"
    and ph: "phase_matrix field_sample = [0, 0, 0]"
    by (simp_all add: field_sample_def)
  show ?thesis
    unfolding calculate_coupling_matrix_def sig amp ph
    by (simp add: np_broadcast_def np_angle_def norm_mult)
qed

text \<open>
  C5, as the claim states it, fails on the code: for the sample field of dimension 3 and
  the sample adaptive state, whose activation and whose flattened weight tensor have
  dimension 4, the first call of \<open>_calculate_coupling_matrix\<close> returns a 3-by-4 matrix.
\<close>

theorem coupling_dimension_3_4_counterexample:
  "length (amplitude_matrix field_sample) = 3 \<and>
   length (activation_matrix adaptive_sample) = 4 \<and>
   calculate_coupling_matrix field_sample adaptive_sample
     = Inr [[Some 2, Some 4, Some 6, Some 8], [Some 0, Some 0, Some 0, Some 0],
            [Some 0, Some 0, Some 0, Some 0]]"
  using sample_coupling by (simp add: field_sample_def adaptive_sample_def)

text \<open>
  C5, amended. \<open>_calculate_coupling_matrix\<close> never compares the dimension \<open>D\<close> of the
  field with the dimension \<open>N\<close> of the adaptive state, and no \<open>DimensionMismatch\<close>
  exists. Its only failure is numpy's \<open>ValueError\<close>, raised exactly when the weight
  tensors differ in flattened length, or the length of the phase differs from \<open>D\<close> with
  neither of the two being 1. With a phase of length \<open>D\<close> and at least one weight
  tensor, all of flattened length \<open>N\<close>, it returns a matrix of \<open>D\<close> rows of \<open>N\<close> entries,
  whatever \<open>D\<close> and \<open>N\<close> are; with a phase of length \<open>D\<close> and no weight tensor it
  returns \<open>D\<close> rows of one NaN entry each.
\<close>

theorem coupling_matrix_shape:
  "(calculate_coupling_matrix q n = Inl e \<longrightarrow> e = ValueError) \<and>
   (calculate_coupling_matrix q n = Inl ValueError \<longleftrightarrow>
      (\<exists>r \<in> set (weight_tensors n). length r \<noteq> length (hd (weight_tensors n))) \<or>
      (length (amplitude_matrix q) \<noteq> length (phase_matrix q) \<and>
       length (amplitude_matrix q) \<noteq> 1 \<and> length (phase_matrix q) \<noteq> 1)) \<and>
   (length (phase_matrix q) = length (amplitude_matrix q) \<and> weight_tensors n \<noteq> [] \<and>
    (\<forall>t \<in> set (weight_tensors n). length t = N) \<longrightarrow>
      (\<exists>M. calculate_coupling_matrix q n = Inr M \<and>
           length M = length (amplitude_matrix q) \<and>
           (\<forall>row \<in> set M. length row = N))) \<and>
   (length (phase_matrix q) = length (amplitude_matrix q) \<and> weight_tensors n = [] \<longrightarrow>
      calculate_coupling_matrix q n = Inr (replicate (length (amplitude_matrix q)) [None]))"
proof (intro conjI)
  show "calculate_coupling_matrix q n = Inl e \<longrightarrow> e = ValueError"
    by (intro impI) (rule coupling_only_failure)
  show "calculate_coupling_matrix q n = Inl ValueError \<longleftrightarrow>
      (\<exists>r \<in> set (weight_tensors n). length r \<noteq> length (hd (weight_tensors n))) \<or>
      (length (amplitude_matrix q) \<noteq> length (phase_matrix q) \<and>
       length (amplitude_matrix q) \<noteq> 1 \<and> length (phase_matrix q) \<noteq> 1)"
    by (rule coupling_failure_iff)
  show "length (phase_matrix q) = length (amplitude_matrix q) \<and> weight_tensors n \<noteq> [] \<and>
    (\<forall>t \<in> set (weight_tensors n). length t = N) \<longrightarrow>
      (\<exists>M. calculate_coupling_matrix q n = Inr M \<and>
           length M = length (amplitude_matrix q) \<and>
           (\<forall>row \<in> set M. length row = N))"
    using coupling_matrix_rows [of q n N] by (intro impI) (elim conjE)
  show "length (phase_matrix q) = length (amplitude_matrix q) \<and> weight_tensors n = [] \<longrightarrow>
      calculate_coupling_matrix q n = Inr (replicate (length (amplitude_matrix q)) [None])"
    using coupling_matrix_no_weights [of q n] by (intro impI) (elim conjE)
qed

theorem coupling_matrix_shape_witness:
  "length (phase_matrix field_sample) = length (amplitude_matrix field_sample) \<and>
   weight_tensors adaptive_sample \<noteq> [] \<and>
   (\<exists>M. calculate_coupling_matrix field_sample adaptive_sample = Inr M \<and>
        length M = length (amplitude_matrix field_sample) \<and>
        list_all (\<lambda>row. length row = 4) M) \<and>
   weight_tensors (adaptive_sample\<lparr>weight_tensors := []\<rparr>) = [] \<and>
   calculate_coupling_matrix field_sample (adaptive_sample\<lparr>weight_tensors := []\<rparr>)
     = Inr (replicate (length (amplitude_matrix field_sample)) [None]) \<and>
   length [1, 2 :: real] \<noteq> length (hd [[1], [1, 2 :: real]]) \<and>
   calculate_coupling_matrix field_sample (adaptive_sample\<lparr>weight_tensors := [[1], [1, 2]]\<rparr>)
     = Inl ValueError"
proof -
  have a: "length (phase_matrix field_sample) = length (amplitude_matrix field_sample)"
    by (simp add: field_sample_def)
  have b: "weight_tensors adaptive_sample \<noteq> []"
    by (simp add: adaptive_sample_def)
  have c: "\<forall>t \<in> set (weight_tensors adaptive_sample). length t = 4"
    by (simp add: adaptive_sample_def)
  have d: "weight_tensors (adaptive_sample\<lparr>weight_tensors := []\<rparr>) = []"
    by simp
  have r: "length [1, 2 :: real] \<noteq> length (hd [[1], [1, 2 :: real]])"
    by simp
  then have e: "\<exists>r \<in> set (weight_tensors (adaptive_sample\<lparr>weight_tensors := [[1], [1, 2]]\<rparr>)).
      length r \<noteq> length (hd (weight_tensors (adaptive_sample\<lparr>weight_tensors := [[1], [1, 2]]\<rparr>)))"
    by simp
  note T1 = coupling_matrix_shape [of field_sample adaptive_sample ValueError 4]
  note T2 = coupling_matrix_shape [of field_sample "adaptive_sample\<lparr>weight_tensors := []\<rparr>"
      ValueError 4]
  note T3 = coupling_matrix_shape [of field_sample
      "adaptive_sample\<lparr>weight_tensors := [[1], [1, 2]]\<rparr>" ValueError 4]
  have 1: "\<exists>M. calculate_coupling_matrix field_sample adaptive_sample = Inr M \<and>
           length M = length (amplitude_matrix field_sample) \<and>
           (\<forall>row \<in> set M. length row = 4)"
    by (rule mp [OF T1 [THEN conjunct2, THEN conjunct2, THEN conjunct1]]) (intro conjI a b c)
  have 2: "calculate_coupling_matrix field_sample (adaptive_sample\<lparr>weight_tensors := []\<rparr>)
     = Inr (replicate (length (amplitude_matrix field_sample)) [None])"
    by (rule mp [OF T2 [THEN conjunct2, THEN conjunct2, THEN conjunct2]]) (intro conjI a d)
  have 3: "calculate_coupling_matrix field_sample
      (adaptive_sample\<lparr>weight_tensors := [[1], [1, 2]]\<rparr>) = Inl ValueError"
    by (rule iffD2 [OF T3 [THEN conjunct2, THEN conjunct1]]) (rule disjI1, rule e)
  from a b 1 d 2 r 3 show ?thesis
    unfolding list_all_iff by (intro conjI)
qed


section \<open>Properties of the optimizer\<close>

lemma optimize_coherence_no_cycle:
  assumes "optimization_cycles cfg = Some c" and "c \<le> 0"
  shows "optimize_coherence A cfg history q n = Inr (q, n, history)"
  using assms by (simp add: optimize_coherence_def)

lemma sample_norm_sq: "norm_sq (amplitude_matrix field_sample) = 4"
  by (simp add: field_sample_def norm_sq_def)

lemma sample_not_normalized:
  "amplitude_matrix field_sample \<noteq> normalize_quantum_state (amplitude_matrix field_sample)"
proof
  assume "amplitude_matrix field_sample = normalize_quantum_state (amplitude_matrix field_sample)"
  then have "norm_sq (amplitude_matrix field_sample)
      = norm_sq (normalize_quantum_state (amplitude_matrix field_sample))"
    by simp
  moreover have "norm_sq (amplitude_matrix field_sample) \<le> FLOAT_MAX"
    by (rule float_max_small) (simp add: sample_norm_sq)
  ultimately have "4 = 4 / (4 + EPSILON)"
    by (simp add: norm_sq_normalize sample_norm_sq)
  then show False
    by (simp add: EPSILON_def)
qed

text \<open>
  C7, as the claim states it, fails on the code: with a budget of no cycle the sample
  field comes back with the amplitude it was given, which is not the amplitude a
  normalization pass produces.
\<close>

theorem zero_cycles_not_normalized_counterexample:
  "optimize_coherence methods_sample (config_sample 0) [] field_sample adaptive_sample
     = Inr (field_sample, adaptive_sample, []) \<and>
   amplitude_matrix field_sample \<noteq> normalize_quantum_state (amplitude_matrix field_sample)"
  using sample_not_normalized
  by (simp add: optimize_coherence_def config_sample_def)

text \<open>
  C7, amended. \<open>optimize_coherence\<close> accepts a cycle budget of 0 (and any negative one):
  it raises nothing, runs no cycle, appends nothing to the history, and returns the two
  states exactly as they were given, with no normalization pass. It returns the pair of
  states only: no \<open>converged\<close> flag and no cycle count.
\<close>

theorem optimize_coherence_zero_cycles:
  "optimization_cycles cfg = Some c \<Longrightarrow> c \<le> 0 \<Longrightarrow>
     optimize_coherence A cfg history q n = Inr (q, n, history)"
  by (rule optimize_coherence_no_cycle)

theorem optimize_coherence_zero_cycles_witness:
  "optimization_cycles (config_sample 0) = Some 0 \<and> (0::int) \<le> 0 \<and>
   optimize_coherence methods_sample (config_sample 0) [] field_sample adaptive_sample
     = Inr (field_sample, adaptive_sample, [])"
proof -
  have a: "optimization_cycles (config_sample 0) = Some 0"
    by (simp add: config_sample_def)
  have b: "(0::int) \<le> 0"
    by simp
  from optimize_coherence_zero_cycles [OF a b, of methods_sample "[]" field_sample adaptive_sample] a b
  show ?thesis by (intro conjI)
qed

section \<open>The two corrections\<close>

lemma QuantumState_rejected:
  "dataclass_new QuantumState_fields QuantumState_call s = Inl TypeError"
  by (simp add: dataclass_new_def QuantumState_fields_def QuantumState_call_def)

lemma NeuralState_rejected:
  "dataclass_new NeuralState_fields NeuralState_call s = Inl TypeError"
  by (simp add: dataclass_new_def NeuralState_fields_def NeuralState_call_def)

lemma quantum_iteration_raises:
  "\<exists>e. quantum_optimization_loop A params coupling (Suc k) s = Inl e \<and>
        (e = ValueError \<or> e = TypeError)"
proof -
  let ?corr = "compute_quantum_corrections A s coupling"
  let ?a = "np_broadcast (\<lambda>x y. x + y) (amplitude_matrix s)
      (map (\<lambda>c. complex_of_real (learning_rate params) * c) (corr_amplitude ?corr))"
  let ?p = "np_broadcast (\<lambda>x y. x + y) (phase_matrix s)
      (map (\<lambda>p. learning_rate params * p) (corr_phase ?corr))"
  show ?thesis
  proof (cases ?a)
    case (Inl e)
    then have "e = ValueError"
      by (rule np_broadcast_failure)
    with Inl show ?thesis
      by (simp add: Let_def)
  next
    case a: (Inr new_amplitude)
    show ?thesis
    proof (cases ?p)
      case (Inl e)
      then have "e = ValueError"
        by (rule np_broadcast_failure)
      with a Inl show ?thesis
        by (simp add: Let_def)
    next
      case (Inr new_phase)
      with a show ?thesis
        by (simp add: Let_def QuantumState_rejected)
    qed
  qed
qed


lemma collect_failure:
  "collect rs = Inl e \<Longrightarrow> \<exists>r \<in> set rs. r = Inl e"
  by (induction rs rule: collect.induct) (auto split: sum.splits)

lemma neural_iteration_raises:
  "\<exists>e. neural_optimization_loop A params coupling i (Suc k) s = Inl e \<and>
        (e = ValueError \<or> e = TypeError)"
proof -
  let ?adapt = "compute_neural_adaptations A s coupling"
  let ?w = "collect (map (\<lambda>(tensor, adaptation).
                np_broadcast (\<lambda>x y. x + y) tensor
                  (map (\<lambda>a. learning_rate params * a) adaptation))
        (zip (weight_tensors s) (weight_updates ?adapt)))"
  show ?thesis
  proof (cases ?w)
    case (Inl e)
    from collect_failure [OF Inl] have "e = ValueError"
      by (auto dest: np_broadcast_failure [OF sym])
    with Inl show ?thesis
      by (simp add: Let_def)
  next
    case (Inr new_weights)
    then show ?thesis
      by (simp add: Let_def NeuralState_rejected)
  qed
qed







lemma no_iteration_neural:
  "apply_neural_optimization A
      (cfg\<lparr>neural_optimization := Some (default_optimization_params\<lparr>max_iterations := 0\<rparr>)\<rparr>)
      n M = Inr n"
  by (simp add: apply_neural_optimization_def get_default_def)





section \<open>A learning rate of zero\<close>

text \<open>
  C8 fails on the code. Whatever the learning rate, 0 included, an iteration of
  \<open>_apply_quantum_optimization\<close> or of \<open>_apply_neural_optimization\<close> returns no state:
  it raises, at the latest where it builds the new state, because the dataclasses of
  the module have other fields than the keywords of the call. So with an iteration
  budget of at least 1, the default being 100, the two corrections raise
  \<open>ValueError\<close> or \<open>TypeError\<close> in their first iteration and leave no amplitude and no
  weight tensor to compare.
\<close>

theorem zero_rate_iteration_raises:
  "learning_rate params = 0 \<and> 1 \<le> max_iterations params \<longrightarrow>
     (\<exists>e. apply_quantum_optimization A (cfg\<lparr>quantum_optimization := Some params\<rparr>) q coupling
             = Inl e \<and> (e = ValueError \<or> e = TypeError)) \<and>
     (\<exists>e. apply_neural_optimization A (cfg\<lparr>neural_optimization := Some params\<rparr>) n coupling
             = Inl e \<and> (e = ValueError \<or> e = TypeError))"
proof (intro impI)
  assume "learning_rate params = 0 \<and> 1 \<le> max_iterations params"
  then have "0 < nat (max_iterations params)"
    by simp
  then obtain k where k: "nat (max_iterations params) = Suc k"
    using gr0_implies_Suc by blast
  have "\<exists>e. apply_quantum_optimization A (cfg\<lparr>quantum_optimization := Some params\<rparr>) q coupling
             = Inl e \<and> (e = ValueError \<or> e = TypeError)"
    using quantum_iteration_raises [of A params coupling k q]
    by (simp add: apply_quantum_optimization_def get_default_def k
        del: quantum_optimization_loop.simps)
  moreover have "\<exists>e. apply_neural_optimization A (cfg\<lparr>neural_optimization := Some params\<rparr>) n coupling
             = Inl e \<and> (e = ValueError \<or> e = TypeError)"
    using neural_iteration_raises [of A params coupling 0 k n]
    by (simp add: apply_neural_optimization_def get_default_def k
        del: neural_optimization_loop.simps)
  ultimately show "(\<exists>e. apply_quantum_optimization A (cfg\<lparr>quantum_optimization := Some params\<rparr>) q coupling
             = Inl e \<and> (e = ValueError \<or> e = TypeError)) \<and>
     (\<exists>e. apply_neural_optimization A (cfg\<lparr>neural_optimization := Some params\<rparr>) n coupling
             = Inl e \<and> (e = ValueError \<or> e = TypeError))"
    by (rule conjI)
qed

theorem zero_rate_iteration_raises_witness:
  "learning_rate (default_optimization_params\<lparr>learning_rate := 0\<rparr>) = 0 \<and>
   1 \<le> max_iterations (default_optimization_params\<lparr>learning_rate := 0\<rparr>) \<and>
   (\<exists>e. apply_quantum_optimization methods_sample
           ((config_sample 1)\<lparr>quantum_optimization :=
              Some (default_optimization_params\<lparr>learning_rate := 0\<rparr>)\<rparr>)
           field_sample [] = Inl e \<and> (e = ValueError \<or> e = TypeError)) \<and>
   (\<exists>e. apply_neural_optimization methods_sample
           ((config_sample 1)\<lparr>neural_optimization :=
              Some (default_optimization_params\<lparr>learning_rate := 0\<rparr>)\<rparr>)
           adaptive_sample [] = Inl e \<and> (e = ValueError \<or> e = TypeError))"
proof -
  have a: "learning_rate (default_optimization_params\<lparr>learning_rate := 0\<rparr>) = 0"
    by simp
  have b: "1 \<le> max_iterations (default_optimization_params\<lparr>learning_rate := 0\<rparr>)"
    by (simp add: default_optimization_params_def)
  note T = zero_rate_iteration_raises [of "default_optimization_params\<lparr>learning_rate := 0\<rparr>"
      methods_sample "config_sample 1" field_sample "[]" adaptive_sample]
  from mp [OF T conjI [OF a b]] a b show ?thesis
    by (intro conjI) (elim conjE, assumption)+
qed

end
